theory Spec2Isabelle
  imports Complex_Main
begin

section \<open>Numbers and vectors\<close>

text \<open>
  A JavaScript number is modelled as a real number: \<open>+\<close>, \<open>*\<close>, \<open>Math.sqrt\<close>, \<open>Math.cos\<close>
  and \<open>Math.sin\<close> are the exact operations on \<^typ>\<open>real\<close>.  The rounding of IEEE doubles, the
  infinities and NaN are outside the model, so every equation below is an equation of exact
  arithmetic.

  \<open>THREE.Vector3\<close> is the three.js vector class.  The operations the simulation calls on it
  are written out as the library defines them; \<open>normalize\<close> divides by \<open>length() || 1\<close>,
  so that the zero vector stays the zero vector.
\<close>

datatype Vector3 = Vector3 (vx: real) (vy: real) (vz: real)

definition js_or :: "real \<Rightarrow> real \<Rightarrow> real" where
  \<comment> \<open>\<open>a || b\<close> on numbers: \<open>0\<close> is falsy.\<close>
  "js_or a b = (if a = 0 then b else a)"

definition sub_vec :: "Vector3 \<Rightarrow> Vector3 \<Rightarrow> Vector3" where
  "sub_vec u v = Vector3 (vx u - vx v) (vy u - vy v) (vz u - vz v)"

definition add_vec :: "Vector3 \<Rightarrow> Vector3 \<Rightarrow> Vector3" where
  "add_vec u v = Vector3 (vx u + vx v) (vy u + vy v) (vz u + vz v)"

definition length_vec :: "Vector3 \<Rightarrow> real" where
  "length_vec v = sqrt (vx v * vx v + vy v * vy v + vz v * vz v)"

definition multiplyScalar :: "Vector3 \<Rightarrow> real \<Rightarrow> Vector3" where
  "multiplyScalar v k = Vector3 (vx v * k) (vy v * k) (vz v * k)"

definition divideScalar :: "Vector3 \<Rightarrow> real \<Rightarrow> Vector3" where
  "divideScalar v k = multiplyScalar v (1 / k)"

definition normalize_vec :: "Vector3 \<Rightarrow> Vector3" where
  "normalize_vec v = divideScalar v (js_or (length_vec v) 1)"

section \<open>The simulation object\<close>

text \<open>One row of the \<open>bodies\<close> table of \<open>init\<close>.\<close>

record Body =
  body_name :: string
  body_r :: real
  body_size :: real
  body_color :: "real \<times> real \<times> real"
  body_speed :: real
  body_e :: real

text \<open>
  Of a \<open>THREE.Mesh\<close> the simulation writes the position, the rotation about the y axis and,
  for the material of the Sun, the \<open>timeUniform\<close> stored in \<open>material.userData\<close>.
\<close>

record Mesh =
  position :: Vector3
  rotation_y :: real
  timeUniform :: "real option"

text \<open>
  An entry of \<open>this.planets\<close>.  Of the label sprite only its position is kept; \<open>animate\<close>
  tests \<open>if (p.label)\<close>, so the label is optional.
\<close>

record Planet =
  mesh :: Mesh
  label :: "Vector3 option"
  data :: Body
  angle :: real

record Controls =
  target :: Vector3
  minDistance :: real
  maxDistance :: real

text \<open>
  The fields of \<open>Simulation\<close> that \<open>updateInteraction\<close>, \<open>zoomIn\<close>, \<open>zoomOut\<close> and
  \<open>animate\<close> read or write.  The two counters record the calls of \<open>controls.update()\<close> and
  of \<open>renderer.render(scene, camera)\<close>.
\<close>

record Simulation =
  targetPos :: Vector3
  time :: real
  isPaused :: bool
  planets :: "Planet list"
  camera_position :: Vector3
  controls :: Controls
  sunLight_position :: "Vector3 option"
  controls_updates :: nat
  frames_rendered :: nat

subsection \<open>Construction\<close>

definition bodies :: "Body list" where
  "bodies =
    [\<lparr>body_name = ''Sun'', body_r = 0, body_size = 5.0, body_color = (1.0, 0.6, 0.1),
       body_speed = 0, body_e = 0\<rparr>,
     \<lparr>body_name = ''Mercury'', body_r = 10, body_size = 0.4, body_color = (0.7, 0.7, 0.7),
       body_speed = 4.0, body_e = 0.206\<rparr>,
     \<lparr>body_name = ''Venus'', body_r = 15, body_size = 0.9, body_color = (0.9, 0.8, 0.6),
       body_speed = 3.0, body_e = 0.007\<rparr>,
     \<lparr>body_name = ''Earth'', body_r = 20, body_size = 1.0, body_color = (0.0, 0.4, 0.8),
       body_speed = 2.4, body_e = 0.017\<rparr>,
     \<lparr>body_name = ''Mars'', body_r = 25, body_size = 0.5, body_color = (1.0, 0.3, 0.2),
       body_speed = 2.0, body_e = 0.093\<rparr>,
     \<lparr>body_name = ''Jupiter'', body_r = 35, body_size = 2.5, body_color = (0.8, 0.7, 0.6),
       body_speed = 1.3, body_e = 0.049\<rparr>,
     \<lparr>body_name = ''Saturn'', body_r = 45, body_size = 2.1, body_color = (0.9, 0.8, 0.5),
       body_speed = 0.9, body_e = 0.056\<rparr>,
     \<lparr>body_name = ''Uranus'', body_r = 55, body_size = 1.5, body_color = (0.6, 0.8, 0.9),
       body_speed = 0.6, body_e = 0.046\<rparr>,
     \<lparr>body_name = ''Neptune'', body_r = 65, body_size = 1.4, body_color = (0.3, 0.4, 1.0),
       body_speed = 0.5, body_e = 0.010\<rparr>]"

text \<open>
  The loop of \<open>init\<close> over the table, with the table as a parameter.  \<open>rnd i\<close> is the value
  of \<open>Math.random()\<close> drawn for row \<open>i\<close>.  A new mesh and a new sprite sit at the origin;
  \<open>createPlanetMaterial\<close> gives a \<open>timeUniform\<close> to the material of the body named
  \<open>Sun\<close> only.  The loop has no check, no \<open>throw\<close> and no early exit; \<open>init\<close> runs it on
  the table \<open>bodies\<close>, which is a local constant of \<open>init\<close> and not an input.
\<close>

definition create_planet :: "real \<Rightarrow> Body \<Rightarrow> Planet" where
  "create_planet u body =
    \<lparr>mesh = \<lparr>position = Vector3 0 0 0, rotation_y = 0,
              timeUniform = (if body_name body = ''Sun'' then Some 0 else None)\<rparr>,
     label = Some (Vector3 0 0 0),
     data = body,
     angle = u * pi * 2\<rparr>"

fun create_planets :: "(nat \<Rightarrow> real) \<Rightarrow> nat \<Rightarrow> Body list \<Rightarrow> Planet list" where
  "create_planets rnd i [] = []"
| "create_planets rnd i (body # rest) = create_planet (rnd i) body # create_planets rnd (Suc i) rest"

definition init :: "(nat \<Rightarrow> real) \<Rightarrow> Simulation" where
  \<comment> \<open>The state the constructor leaves: its own assignments, then those of \<open>init\<close>.\<close>
  "init rnd =
    \<lparr>targetPos = Vector3 0 0 0,
     time = 0,
     isPaused = False,
     planets = create_planets rnd 0 bodies,
     camera_position = Vector3 0 60 80,
     controls = \<lparr>target = Vector3 0 0 0, minDistance = 10, maxDistance = 300\<rparr>,
     sunLight_position = Some (Vector3 0 0 0),
     controls_updates = 0,
     frames_rendered = 0\<rparr>"

subsection \<open>Interaction and zoom\<close>

text \<open>
  In \<open>zoomIn\<close> and \<open>zoomOut\<close> the value \<open>newDist\<close> is the distance the method asks for.  In
  exact arithmetic the rescaled offset has exactly this length.  In the doubles of the program
  the products \<open>currentDist * 0.8\<close> and \<open>currentDist * 1.25\<close>, the normalisation and the
  length of the new offset are each rounded, so there the distance measured after a call may
  differ from \<open>newDist\<close> in the last place; nothing below speaks about that rounding.
\<close>

definition updateInteraction :: "bool \<Rightarrow> Simulation \<Rightarrow> Simulation" where
  "updateInteraction isStopped s =
    (let s1 = s\<lparr>isPaused := isStopped\<rparr>
     in (case sunLight_position s1 of
           None \<Rightarrow> s1
         | Some _ \<Rightarrow> s1\<lparr>sunLight_position := Some (Vector3 0 0 0)\<rparr>))"

definition zoomIn :: "Simulation \<Rightarrow> Simulation" where
  "zoomIn s =
    (let offset = sub_vec (camera_position s) (target (controls s));
         currentDist = length_vec offset;
         newDist = max (minDistance (controls s)) (currentDist * 0.8);
         offset1 = multiplyScalar (normalize_vec offset) newDist
     in s\<lparr>camera_position := add_vec (target (controls s)) offset1\<rparr>)"

definition zoomOut :: "Simulation \<Rightarrow> Simulation" where
  "zoomOut s =
    (let offset = sub_vec (camera_position s) (target (controls s));
         currentDist = length_vec offset;
         newDist = min (maxDistance (controls s)) (currentDist * 1.25);
         offset1 = multiplyScalar (normalize_vec offset) newDist
     in s\<lparr>camera_position := add_vec (target (controls s)) offset1\<rparr>)"

definition camera_distance :: "Simulation \<Rightarrow> real" where
  \<comment> \<open>What both zoom methods call \<open>currentDist\<close>.\<close>
  "camera_distance s = length_vec (sub_vec (camera_position s) (target (controls s)))"

subsection \<open>The frame\<close>

text \<open>
  The body of the \<open>for\<close> loop of \<open>animate\<close> for the entry at index \<open>i\<close>, with the value
  of \<open>this.isPaused\<close> and of \<open>this.time\<close>.
\<close>

definition update_planet :: "bool \<Rightarrow> real \<Rightarrow> nat \<Rightarrow> Planet \<Rightarrow> Planet" where
  "update_planet paused t i p =
    (let p1 =
       (if i = 0 then
          p\<lparr>mesh := (mesh p)\<lparr>position := Vector3 0 0 0,
                 timeUniform := (case timeUniform (mesh p) of None \<Rightarrow> None | Some _ \<Rightarrow> Some t)\<rparr>\<rparr>
        else
          (let p0 = (if \<not> paused
                     then p\<lparr>angle := angle p + body_speed (data p) * 0.005,
                            mesh := (mesh p)\<lparr>rotation_y := rotation_y (mesh p) + 0.01\<rparr>\<rparr>
                     else p);
               a = body_r (data p0);
               e = js_or (body_e (data p0)) 0;
               b = a * sqrt (1 - e * e);
               c = a * e;
               x = cos (angle p0) * a - c;
               z = sin (angle p0) * b
           in p0\<lparr>mesh := (mesh p0)\<lparr>position := Vector3 x 0 z\<rparr>\<rparr>))
     in (case label p1 of
           None \<Rightarrow> p1
         | Some _ \<Rightarrow>
             p1\<lparr>label := Some (Vector3 (vx (position (mesh p1)))
                                     (vy (position (mesh p1)) + (body_size (data p1) + 2.0))
                                     (vz (position (mesh p1))))\<rparr>))"

fun update_planets :: "bool \<Rightarrow> real \<Rightarrow> nat \<Rightarrow> Planet list \<Rightarrow> Planet list" where
  "update_planets paused t i [] = []"
| "update_planets paused t i (p # ps) =
     update_planet paused t i p # update_planets paused t (Suc i) ps"

text \<open>
  \<open>controls.update()\<close> belongs to the \<open>OrbitControls\<close> add-on of three.js: it is the
  parameter \<open>orbit\<close>, which may move the camera and change the controls.
\<close>

definition animate :: "(Vector3 \<times> Controls \<Rightarrow> Vector3 \<times> Controls) \<Rightarrow> Simulation \<Rightarrow> Simulation" where
  "animate orbit s =
    (let (cam, ctl) = orbit (camera_position s, controls s);
         s1 = s\<lparr>camera_position := cam, controls := ctl,
                controls_updates := Suc (controls_updates s)\<rparr>;
         s2 = (if \<not> isPaused s1 then s1\<lparr>time := time s1 + 0.01\<rparr> else s1);
         s3 = s2\<lparr>planets := update_planets (isPaused s2) (time s2) 0 (planets s2)\<rparr>
     in s3\<lparr>frames_rendered := Suc (frames_rendered s3)\<rparr>)"

subsection \<open>The page script\<close>

text \<open>
  \<open>main.js\<close> keeps its own \<open>isPaused\<close>, toggled by the stop button, and replaces
  \<open>simulation.animate\<close> by a function that first hands the flag to \<open>updateInteraction\<close>.
  It does so in a timer 100 ms after the start; until then the animation loop that \<open>init\<close>
  registered calls \<open>animate\<close> itself.  \<open>RawFrame\<close> is a frame of that first loop and
  \<open>Frame\<close> a frame of the hooked one.
  The zoom buttons call \<open>zoomIn\<close> and \<open>zoomOut\<close> in their click handlers.
\<close>

record Page =
  page_isPaused :: bool
  simulation :: Simulation

datatype event = ClickZoomIn | ClickZoomOut | ClickStop | RawFrame | Frame

definition hooked_animate :: "(Vector3 \<times> Controls \<Rightarrow> Vector3 \<times> Controls) \<Rightarrow> bool \<Rightarrow> Simulation \<Rightarrow> Simulation" where
  "hooked_animate orbit paused s = animate orbit (updateInteraction paused s)"

fun handle :: "(Vector3 \<times> Controls \<Rightarrow> Vector3 \<times> Controls) \<Rightarrow> event \<Rightarrow> Page \<Rightarrow> Page" where
  "handle orbit ClickZoomIn g = g\<lparr>simulation := zoomIn (simulation g)\<rparr>"
| "handle orbit ClickZoomOut g = g\<lparr>simulation := zoomOut (simulation g)\<rparr>"
| "handle orbit ClickStop g = g\<lparr>page_isPaused := \<not> page_isPaused g\<rparr>"
| "handle orbit RawFrame g = g\<lparr>simulation := animate orbit (simulation g)\<rparr>"
| "handle orbit Frame g =
     g\<lparr>simulation := hooked_animate orbit (page_isPaused g) (simulation g)\<rparr>"

fun run :: "(Vector3 \<times> Controls \<Rightarrow> Vector3 \<times> Controls) \<Rightarrow> event list \<Rightarrow> Page \<Rightarrow> Page" where
  "run orbit [] g = g"
| "run orbit (ev # evs) g = run orbit evs (handle orbit ev g)"

definition page_init :: "(nat \<Rightarrow> real) \<Rightarrow> Page" where
  "page_init rnd = \<lparr>page_isPaused = False, simulation = init rnd\<rparr>"

subsection \<open>Sample inputs\<close>

text \<open>
  A stream of \<open>Math.random()\<close> values that is constantly \<open>1/4\<close>: every body then starts
  at the angle \<open>pi / 2\<close>.
\<close>

definition random_quarter :: "nat \<Rightarrow> real" where
  "random_quarter i = 1 / 4"

section \<open>Facts about the loop\<close>

lemma length_update_planets [simp]:
  "length (update_planets paused t i ps) = length ps"
  by (induction ps arbitrary: i) simp_all

lemma nth_update_planets:
  "k < length ps \<Longrightarrow> update_planets paused t i ps ! k = update_planet paused t (i + k) (ps ! k)"
proof (induction ps arbitrary: i k)
  case Nil
  then show ?case by simp
next
  case (Cons p ps)
  then show ?case by (cases k) simp_all
qed

lemma planets_animate:
  "planets (animate orbit s) =
     update_planets (isPaused s) (if isPaused s then time s else time s + 0.01) 0 (planets s)"
  by (simp add: animate_def Let_def split: prod.split)

lemma isPaused_animate [simp]: "isPaused (animate orbit s) = isPaused s"
  by (simp add: animate_def Let_def split: prod.split)

lemma time_animate:
  "time (animate orbit s) = (if isPaused s then time s else time s + 0.01)"
  by (simp add: animate_def Let_def split: prod.split)

lemma planets_updateInteraction [simp]: "planets (updateInteraction b s) = planets s"
  by (simp add: updateInteraction_def Let_def split: option.split)

lemma isPaused_updateInteraction [simp]: "isPaused (updateInteraction b s) = b"
  by (simp add: updateInteraction_def Let_def split: option.split)

lemma position_update_planet_0:
  "position (mesh (update_planet paused t 0 p)) = Vector3 0 0 0"
  by (simp add: update_planet_def Let_def split: option.split)

lemma js_or_0 [simp]: "js_or x 0 = x"
  by (simp add: js_or_def)

lemma update_planet_orbit:
  assumes "0 < i"
  shows "position (mesh (update_planet paused t i p)) =
           Vector3 (cos (angle (update_planet paused t i p)) * body_r (data p)
                      - body_r (data p) * body_e (data p))
                   0
                   (sin (angle (update_planet paused t i p))
                      * (body_r (data p) * sqrt (1 - (body_e (data p))\<^sup>2)))"
  using assms by (simp add: update_planet_def Let_def power2_eq_square split: option.split)

lemma update_planet_angle:
  "angle (update_planet paused t i p) =
     (if i = 0 \<or> paused then angle p else angle p + body_speed (data p) * 0.005)"
  by (simp add: update_planet_def Let_def split: option.split)

lemma update_planet_data [simp]: "data (update_planet paused t i p) = data p"
  by (simp add: update_planet_def Let_def split: option.split)

lemma update_planet_label:
  "label (update_planet paused t i p) =
     (case label p of None \<Rightarrow> None
      | Some _ \<Rightarrow> Some (add_vec (position (mesh (update_planet paused t i p)))
                                 (Vector3 0 (body_size (data p) + 2.0) 0)))"
  by (simp add: update_planet_def Let_def add_vec_def split: option.split)

lemma update_planet_rotation:
  "rotation_y (mesh (update_planet paused t i p)) =
     (if i = 0 \<or> paused then rotation_y (mesh p) else rotation_y (mesh p) + 0.01)"
  by (simp add: update_planet_def Let_def split: option.split)

lemma update_planet_idem:
  "update_planet True t i (update_planet True t i p) = update_planet True t i p"
  by (cases "label p"; cases "i = 0"; cases "timeUniform (mesh p)")
     (simp_all add: update_planet_def Let_def)

lemma update_planets_idem:
  "update_planets True t i (update_planets True t i ps) = update_planets True t i ps"
  by (induction ps arbitrary: i) (simp_all add: update_planet_idem)

lemma nth_planets_animate:
  "i < length (planets s) \<Longrightarrow>
     planets (animate orbit s) ! i =
       update_planet (isPaused s) (if isPaused s then time s else time s + 0.01) i (planets s ! i)"
  using nth_update_planets [of i "planets s" "isPaused s" _ 0] by (simp add: planets_animate)

lemma length_planets_animate [simp]: "length (planets (animate orbit s)) = length (planets s)"
  by (simp add: planets_animate)

subsection \<open>The table and the state after construction\<close>

lemma nth_create_planets:
  "k < length table \<Longrightarrow> create_planets rnd i table ! k = create_planet (rnd (i + k)) (table ! k)"
proof (induction table arbitrary: i k)
  case Nil
  then show ?case by simp
next
  case (Cons b bs)
  then show ?case by (cases k) simp_all
qed

lemma length_create_planets [simp]: "length (create_planets rnd i table) = length table"
  by (induction table arbitrary: i) simp_all

lemma length_bodies: "length bodies = 9"
  by (simp add: bodies_def)

lemma bodies_in_range:
  "list_all (\<lambda>b. 0 \<le> body_e b \<and> body_e b < 1 \<and> 0 \<le> body_r b) bodies
   \<and> distinct (map body_name bodies)"
  by (simp add: bodies_def)

lemma mercury:
  "planets (init random_quarter) ! Suc 0 =
     create_planet (1 / 4)
       \<lparr>body_name = ''Mercury'', body_r = 10, body_size = 0.4, body_color = (0.7, 0.7, 0.7),
        body_speed = 4.0, body_e = 0.206\<rparr>"
  using nth_create_planets [of "Suc 0" bodies random_quarter 0]
  by (simp add: init_def length_bodies random_quarter_def) (simp add: bodies_def)

section \<open>The central body\<close>

lemma planets_zoomIn [simp]: "planets (zoomIn s) = planets s"
  by (simp add: zoomIn_def Let_def)

lemma planets_zoomOut [simp]: "planets (zoomOut s) = planets s"
  by (simp add: zoomOut_def Let_def)

lemma length_planets_handle [simp]:
  "length (planets (simulation (handle orbit ev g))) = length (planets (simulation g))"
  by (cases ev) (simp_all add: hooked_animate_def)

lemma length_planets_run [simp]:
  "length (planets (simulation (run orbit evs g))) = length (planets (simulation g))"
  by (induction evs arbitrary: g) simp_all

lemma run_append: "run orbit (xs @ ys) g = run orbit ys (run orbit xs g)"
  by (induction xs arbitrary: g) simp_all

text \<open>
  C2.  After a frame the mesh of the entry at index 0 (the Sun) is at the origin
  \<open>(0, 0, 0)\<close>, whatever the state before the frame was: whatever position the mesh held,
  whether the simulation is paused, whatever \<open>controls.update()\<close> did.  This holds for
  \<open>animate\<close> itself, for the frame as \<open>main.js\<close> hooks it, and for the frame, hooked or
  not, that ends any sequence of button clicks and earlier frames.
\<close>

theorem sun_pinned_to_origin:
  assumes "planets s \<noteq> []"
  shows "position (mesh (planets (animate orbit s) ! 0)) = Vector3 0 0 0
       \<and> position (mesh (planets (hooked_animate orbit b s) ! 0)) = Vector3 0 0 0
       \<and> position (mesh (planets (simulation
             (run orbit (evs @ [Frame]) \<lparr>page_isPaused = b, simulation = s\<rparr>)) ! 0)) = Vector3 0 0 0
       \<and> position (mesh (planets (simulation
             (run orbit (evs @ [RawFrame]) \<lparr>page_isPaused = b, simulation = s\<rparr>)) ! 0)) = Vector3 0 0 0"
proof -
  have pin: "position (mesh (planets (animate orbit x) ! 0)) = Vector3 0 0 0"
    if "0 < length (planets x)" for x
    using that nth_planets_animate [of 0 x orbit] by (simp add: position_update_planet_0)
  have len: "0 < length (planets s)" using assms by simp
  let ?g = "run orbit evs \<lparr>page_isPaused = b, simulation = s\<rparr>"
  have "0 < length (planets (updateInteraction b s))"
    and "0 < length (planets (updateInteraction (page_isPaused ?g) (simulation ?g)))"
    and "0 < length (planets (simulation ?g))"
    using len by simp_all
  then show ?thesis
    using pin [OF len] pin [of "updateInteraction b s"]
      pin [of "updateInteraction (page_isPaused ?g) (simulation ?g)"]
      pin [of "simulation ?g"]
    by (simp add: hooked_animate_def run_append)
qed

theorem sun_pinned_to_origin_witness:
  "planets (init random_quarter) \<noteq> []
   \<and> position (mesh (planets (animate id (init random_quarter)) ! 0)) = Vector3 0 0 0
   \<and> position (mesh (planets (hooked_animate id True (init random_quarter)) ! 0)) = Vector3 0 0 0
   \<and> position (mesh (planets (simulation
         (run id ([RawFrame, ClickStop, Frame, ClickZoomIn, ClickStop] @ [Frame])
            \<lparr>page_isPaused = False, simulation = init random_quarter\<rparr>)) ! 0)) = Vector3 0 0 0
   \<and> position (mesh (planets (simulation
         (run id ([RawFrame, ClickZoomOut] @ [RawFrame])
            \<lparr>page_isPaused = False, simulation = init random_quarter\<rparr>)) ! 0)) = Vector3 0 0 0"
proof -
  have ne: "planets (init random_quarter) \<noteq> []" by (simp add: init_def bodies_def)
  show ?thesis
    using ne sun_pinned_to_origin [OF ne, of id True]
      sun_pinned_to_origin [OF ne, of id False "[RawFrame, ClickStop, Frame, ClickZoomIn, ClickStop]"]
      sun_pinned_to_origin [OF ne, of id False "[RawFrame, ClickZoomOut]"]
    by blast
qed

section \<open>The orbit\<close>

text \<open>
  C1.  For an entry at an index \<open>i > 0\<close> whose body has semi-major axis \<open>a \<ge> 0\<close> and
  eccentricity \<open>0 \<le> e < 1\<close>, the mesh position a frame computes is
  \<open>(cos phase * a - c, 0, sin phase * b)\<close> with \<open>b = a * sqrt (1 - e^2)\<close>, \<open>c = a * e\<close> and
  \<open>phase\<close> the angle the entry has after the frame.  The witness is the scenario of the
  claim: Mercury (\<open>a = 10\<close>, \<open>e = 0.206\<close>) at phase \<open>pi / 2\<close> is at
  \<open>(-2.06, 0, 10 * sqrt (1 - 0.206^2))\<close>.
\<close>

theorem orbit_position:
  assumes "0 < i" and "i < length (planets s)"
    and "0 \<le> body_r (data (planets s ! i))"
    and "0 \<le> body_e (data (planets s ! i))" and "body_e (data (planets s ! i)) < 1"
  shows "position (mesh (planets (animate orbit s) ! i)) =
           Vector3 (cos (angle (planets (animate orbit s) ! i)) * body_r (data (planets s ! i))
                      - body_r (data (planets s ! i)) * body_e (data (planets s ! i)))
                   0
                   (sin (angle (planets (animate orbit s) ! i))
                      * (body_r (data (planets s ! i))
                           * sqrt (1 - (body_e (data (planets s ! i)))\<^sup>2)))"
  using assms(1,2) by (simp add: nth_planets_animate update_planet_orbit)

theorem orbit_position_witness:
  "0 < (1::nat) \<and> 1 < length (planets (updateInteraction True (init random_quarter)))
   \<and> body_r (data (planets (updateInteraction True (init random_quarter)) ! 1)) = 10
   \<and> body_e (data (planets (updateInteraction True (init random_quarter)) ! 1)) = 0.206
   \<and> angle (planets (animate id (updateInteraction True (init random_quarter))) ! 1) = pi / 2
   \<and> position (mesh (planets (animate id (updateInteraction True (init random_quarter))) ! 1)) =
       Vector3 (- 2.06) 0 (10 * sqrt (1 - 0.206\<^sup>2))"
proof -
  let ?s = "updateInteraction True (init random_quarter)"
  have pos: "0 < (1::nat)" by simp
  have len: "1 < length (planets ?s)" by (simp add: init_def length_bodies)
  have r: "body_r (data (planets ?s ! 1)) = 10"
    by (simp add: mercury create_planet_def)
  have e: "body_e (data (planets ?s ! 1)) = 0.206"
    by (simp add: mercury create_planet_def)
  have ang: "angle (planets (animate id ?s) ! 1) = pi / 2"
    using len by (simp add: nth_planets_animate update_planet_angle mercury create_planet_def)
  have "position (mesh (planets (animate id ?s) ! 1)) =
          Vector3 (cos (pi / 2) * 10 - 10 * 0.206) 0 (sin (pi / 2) * (10 * sqrt (1 - 0.206\<^sup>2)))"
    using orbit_position [OF pos len, of id] unfolding ang r e by simp
  then have "position (mesh (planets (animate id ?s) ! 1)) =
          Vector3 (- 2.06) 0 (10 * sqrt (1 - 0.206\<^sup>2))"
    by simp
  then show ?thesis using len r e ang by simp
qed

section \<open>Advancing the phase\<close>

lemma time_advance: "\<not> isPaused s \<Longrightarrow> time (animate orbit s) = time s + 0.01"
  by (simp add: time_animate)

text \<open>
  C8.  In a frame that is not paused, every entry at an index \<open>i > 0\<close> has its angle advanced
  by exactly \<open>speed * 0.005\<close>, the constant \<open>0.005\<close> being the fixed per-frame step of the
  phase, and its mesh position is then computed from the advanced angle by the orbit formula.
  The angle of the entry at index 0 is not changed.
\<close>

theorem phase_advance:
  assumes "\<not> isPaused s" and "i < length (planets s)"
  shows "(0 < i \<longrightarrow>
            angle (planets (animate orbit s) ! i)
              = angle (planets s ! i) + body_speed (data (planets s ! i)) * 0.005
          \<and> position (mesh (planets (animate orbit s) ! i)) =
              Vector3 (cos (angle (planets s ! i) + body_speed (data (planets s ! i)) * 0.005)
                         * body_r (data (planets s ! i))
                       - body_r (data (planets s ! i)) * body_e (data (planets s ! i)))
                      0
                      (sin (angle (planets s ! i) + body_speed (data (planets s ! i)) * 0.005)
                         * (body_r (data (planets s ! i))
                              * sqrt (1 - (body_e (data (planets s ! i)))\<^sup>2))))
       \<and> angle (planets (animate orbit s) ! 0) = angle (planets s ! 0)"
proof -
  have len0: "0 < length (planets s)" using assms(2) by (cases "planets s") simp_all
  have sun: "angle (planets (animate orbit s) ! 0) = angle (planets s ! 0)"
    using len0 by (simp add: nth_planets_animate update_planet_angle)
  show ?thesis
    using assms sun by (simp add: nth_planets_animate update_planet_orbit update_planet_angle)
qed

theorem phase_advance_witness:
  "\<not> isPaused (init random_quarter) \<and> 1 < length (planets (init random_quarter))
   \<and> angle (planets (animate id (init random_quarter)) ! 1) = pi / 2 + 4.0 * 0.005
   \<and> angle (planets (animate id (init random_quarter)) ! 0) = angle (planets (init random_quarter) ! 0)"
proof -
  let ?s = "init random_quarter"
  have np: "\<not> isPaused ?s" by (simp add: init_def)
  have len: "1 < length (planets ?s)" by (simp add: init_def length_bodies)
  have a: "angle (planets ?s ! 1) = pi / 2" by (simp add: mercury create_planet_def)
  have sp: "body_speed (data (planets ?s ! 1)) = 4.0" by (simp add: mercury create_planet_def)
  have "angle (planets (animate id ?s) ! 1) = pi / 2 + 4.0 * 0.005"
    using phase_advance [OF np len, of id] unfolding a sp by simp
  moreover have "angle (planets (animate id ?s) ! 0) = angle (planets ?s ! 0)"
    using phase_advance [OF np len, of id] by simp
  ultimately show ?thesis using np len by simp
qed

section \<open>Labels\<close>

text \<open>
  C10.  In every frame, for every entry at an index \<open>i > 0\<close> that has a label (every entry
  that \<open>init\<close> creates has one), the mesh receives the position computed in this frame and
  the label is placed at that position plus \<open>(0, size + 2.0, 0)\<close>.
\<close>

theorem label_follows_mesh:
  assumes "0 < i" and "i < length (planets s)" and "label (planets s ! i) \<noteq> None"
  shows "position (mesh (planets (animate orbit s) ! i)) =
           Vector3 (cos (angle (planets (animate orbit s) ! i)) * body_r (data (planets s ! i))
                      - body_r (data (planets s ! i)) * body_e (data (planets s ! i)))
                   0
                   (sin (angle (planets (animate orbit s) ! i))
                      * (body_r (data (planets s ! i))
                           * sqrt (1 - (body_e (data (planets s ! i)))\<^sup>2)))
       \<and> label (planets (animate orbit s) ! i) =
           Some (add_vec (position (mesh (planets (animate orbit s) ! i)))
                         (Vector3 0 (body_size (data (planets s ! i)) + 2.0) 0))"
  using assms by (auto simp add: nth_planets_animate update_planet_orbit update_planet_label)

theorem label_follows_mesh_witness:
  "0 < (1::nat) \<and> 1 < length (planets (init random_quarter))
   \<and> label (planets (init random_quarter) ! 1) \<noteq> None
   \<and> label (planets (animate id (init random_quarter)) ! 1) =
       Some (add_vec (position (mesh (planets (animate id (init random_quarter)) ! 1)))
                     (Vector3 0 2.4 0))"
proof -
  let ?s = "init random_quarter"
  have pos: "0 < (1::nat)" by simp
  have len: "1 < length (planets ?s)" by (simp add: init_def length_bodies)
  have lab: "label (planets ?s ! 1) \<noteq> None" by (simp add: mercury create_planet_def)
  have sz: "body_size (data (planets ?s ! 1)) = 0.4" by (simp add: mercury create_planet_def)
  have "label (planets (animate id ?s) ! 1) =
       Some (add_vec (position (mesh (planets (animate id ?s) ! 1))) (Vector3 0 (0.4 + 2.0) 0))"
    using label_follows_mesh [OF pos len lab, of id] unfolding sz by simp
  then show ?thesis using len lab by simp
qed

section \<open>Paused frames\<close>

lemma frames_rendered_animate [simp]: "frames_rendered (animate orbit s) = Suc (frames_rendered s)"
  by (simp add: animate_def Let_def split: prod.split)

lemma controls_updates_animate [simp]: "controls_updates (animate orbit s) = Suc (controls_updates s)"
  by (simp add: animate_def Let_def split: prod.split)

lemma camera_animate:
  "(camera_position (animate orbit s), controls (animate orbit s)) = orbit (camera_position s, controls s)"
  by (simp add: animate_def Let_def split: prod.split)

lemma isPaused_funpow_animate [simp]: "isPaused ((animate orbit ^^ n) s) = isPaused s"
  by (induction n) simp_all

lemma time_paused_frames: "isPaused s \<Longrightarrow> time ((animate orbit ^^ n) s) = time s"
  by (induction n) (simp_all add: time_animate)

lemma angle_update_planets_paused:
  "map angle (update_planets True t i ps) = map angle ps"
  by (induction ps arbitrary: i) (simp_all add: update_planet_angle)

lemma rotation_update_planets_paused:
  "map (\<lambda>p. rotation_y (mesh p)) (update_planets True t i ps) = map (\<lambda>p. rotation_y (mesh p)) ps"
  by (induction ps arbitrary: i) (simp_all add: update_planet_rotation)

lemma angle_paused_frames:
  "isPaused s \<Longrightarrow> map angle (planets ((animate orbit ^^ n) s)) = map angle (planets s)"
  by (induction n) (simp_all add: planets_animate angle_update_planets_paused)

lemma planets_paused_frames:
  assumes "isPaused s"
  shows "planets ((animate orbit ^^ Suc n) s) = planets (animate orbit s)"
proof (induction n)
  case 0
  show ?case by simp
next
  case (Suc n)
  have "planets ((animate orbit ^^ Suc (Suc n)) s)
          = update_planets True (time s) 0 (planets ((animate orbit ^^ Suc n) s))"
    using assms time_paused_frames [OF assms, where orbit = orbit and n = "Suc n"]
    by (simp add: planets_animate [of orbit "animate orbit ((animate orbit ^^ n) s)"])
  also have "\<dots> = update_planets True (time s) 0 (update_planets True (time s) 0 (planets s))"
    using assms by (simp only: Suc.IH) (simp add: planets_animate)
  also have "\<dots> = planets (animate orbit s)"
    using assms by (simp add: update_planets_idem planets_animate)
  finally show ?case .
qed

lemma frames_rendered_funpow: "frames_rendered ((animate orbit ^^ n) s) = frames_rendered s + n"
  by (induction n) simp_all

lemma controls_updates_funpow: "controls_updates ((animate orbit ^^ n) s) = controls_updates s + n"
  by (induction n) simp_all

text \<open>
  C3.  While \<open>isPaused\<close> is set, any number \<open>n\<close> of frames leaves the angle of every
  entry and the clock \<open>time\<close> unchanged, and the recomputation is idempotent: after one
  frame or after any larger number of frames the entries (positions, labels, rotations) are
  the same.  Every one of these frames still calls \<open>controls.update()\<close> and
  \<open>renderer.render\<close>: both counters grow by \<open>n\<close>, and the camera is what
  \<open>controls.update()\<close> made of it.
\<close>

theorem paused_frames:
  assumes "isPaused s"
  shows "map angle (planets ((animate orbit ^^ n) s)) = map angle (planets s)
       \<and> time ((animate orbit ^^ n) s) = time s
       \<and> planets ((animate orbit ^^ Suc n) s) = planets (animate orbit s)
       \<and> frames_rendered ((animate orbit ^^ n) s) = frames_rendered s + n
       \<and> controls_updates ((animate orbit ^^ n) s) = controls_updates s + n
       \<and> (camera_position (animate orbit s), controls (animate orbit s))
            = orbit (camera_position s, controls s)"
  using angle_paused_frames [OF assms] time_paused_frames [OF assms]
    planets_paused_frames [OF assms]
  by (simp only: frames_rendered_funpow controls_updates_funpow camera_animate simp_thms)

theorem paused_frames_witness:
  "isPaused (updateInteraction True (init random_quarter))
   \<and> map angle (planets ((animate id ^^ 3) (updateInteraction True (init random_quarter))))
       = map angle (planets (updateInteraction True (init random_quarter)))
   \<and> time ((animate id ^^ 3) (updateInteraction True (init random_quarter))) = 0
   \<and> planets ((animate id ^^ Suc 3) (updateInteraction True (init random_quarter)))
       = planets (animate id (updateInteraction True (init random_quarter)))
   \<and> frames_rendered ((animate id ^^ 3) (updateInteraction True (init random_quarter))) = 3"
proof -
  let ?s = "updateInteraction True (init random_quarter)"
  have p: "isPaused ?s" by simp
  have t: "time ?s = 0" by (simp add: updateInteraction_def init_def)
  have f: "frames_rendered ?s = 0" by (simp add: updateInteraction_def init_def)
  show ?thesis
    using paused_frames [OF p, where orbit = id and n = 3] p unfolding t f by simp
qed

section \<open>Vectors and the camera distance\<close>

lemma length_vec_nonneg [simp]: "0 \<le> length_vec v"
  by (simp add: length_vec_def)

lemma length_vec_eq_0_iff: "length_vec v = 0 \<longleftrightarrow> v = Vector3 0 0 0"
proof
  assume "length_vec v = 0"
  then have "vx v * vx v + vy v * vy v + vz v * vz v = 0"
    by (simp add: length_vec_def)
  then have "vx v = 0 \<and> vy v = 0 \<and> vz v = 0"
    by (smt (verit) zero_le_square mult_eq_0_iff)
  then show "v = Vector3 0 0 0" by (cases v) simp
next
  assume "v = Vector3 0 0 0"
  then show "length_vec v = 0" by (simp add: length_vec_def)
qed

lemma length_vec_multiplyScalar: "length_vec (multiplyScalar v k) = \<bar>k\<bar> * length_vec v"
proof -
  have "vx v * k * (vx v * k) + vy v * k * (vy v * k) + vz v * k * (vz v * k)
          = k\<^sup>2 * (vx v * vx v + vy v * vy v + vz v * vz v)"
    by (simp add: power2_eq_square algebra_simps)
  then show ?thesis
    by (simp add: length_vec_def multiplyScalar_def real_sqrt_mult)
qed

lemma normalize_vec_eq:
  "normalize_vec v = (if length_vec v = 0 then v else multiplyScalar v (1 / length_vec v))"
  by (cases v) (simp add: normalize_vec_def divideScalar_def js_or_def multiplyScalar_def)

lemma multiplyScalar_twice [simp]: "multiplyScalar (multiplyScalar v j) k = multiplyScalar v (j * k)"
  by (simp add: multiplyScalar_def mult.assoc)

lemma multiplyScalar_1 [simp]: "multiplyScalar v 1 = v"
  by (cases v) (simp add: multiplyScalar_def)

lemma sub_add_vec [simp]: "sub_vec (add_vec t v) t = v"
  by (cases v) (simp add: sub_vec_def add_vec_def)

lemma add_sub_vec [simp]: "add_vec t (sub_vec u t) = u"
  by (cases u) (simp add: sub_vec_def add_vec_def)

lemma controls_zoomIn [simp]: "controls (zoomIn s) = controls s"
  by (simp add: zoomIn_def Let_def)

lemma controls_zoomOut [simp]: "controls (zoomOut s) = controls s"
  by (simp add: zoomOut_def Let_def)

text \<open>The offset after a zoom is the old offset scaled by newDist / currentDist.\<close>

lemma offset_zoomIn:
  assumes "camera_distance s \<noteq> 0"
  shows "sub_vec (camera_position (zoomIn s)) (target (controls s)) =
           multiplyScalar (sub_vec (camera_position s) (target (controls s)))
             (max (minDistance (controls s)) (camera_distance s * 0.8) / camera_distance s)"
  using assms by (simp add: zoomIn_def Let_def camera_distance_def normalize_vec_eq)

lemma offset_zoomOut:
  assumes "camera_distance s \<noteq> 0"
  shows "sub_vec (camera_position (zoomOut s)) (target (controls s)) =
           multiplyScalar (sub_vec (camera_position s) (target (controls s)))
             (min (maxDistance (controls s)) (camera_distance s * 1.25) / camera_distance s)"
  using assms by (simp add: zoomOut_def Let_def camera_distance_def normalize_vec_eq)

lemma camera_distance_nonneg [simp]: "0 \<le> camera_distance s"
  by (simp add: camera_distance_def)

lemma camera_distance_zoomIn:
  assumes "camera_distance s \<noteq> 0"
  shows "camera_distance (zoomIn s) = max (minDistance (controls s)) (camera_distance s * 0.8)"
proof -
  have d: "0 < camera_distance s"
    using assms camera_distance_nonneg [of s] by linarith
  then have n: "0 < max (minDistance (controls s)) (camera_distance s * 0.8)"
    by (simp add: less_max_iff_disj)
  have "camera_distance (zoomIn s) =
          \<bar>max (minDistance (controls s)) (camera_distance s * 0.8) / camera_distance s\<bar>
            * camera_distance s"
    using offset_zoomIn [OF assms]
    by (simp add: camera_distance_def [of "zoomIn s"] length_vec_multiplyScalar)
       (simp add: camera_distance_def)
  also have "\<dots> = max (minDistance (controls s)) (camera_distance s * 0.8)"
    using d n by (simp add: abs_of_pos)
  finally show ?thesis .
qed

lemma camera_distance_zoomOut:
  assumes "camera_distance s \<noteq> 0" and "0 \<le> maxDistance (controls s)"
  shows "camera_distance (zoomOut s) = min (maxDistance (controls s)) (camera_distance s * 1.25)"
proof -
  have d: "0 < camera_distance s"
    using assms camera_distance_nonneg [of s] by linarith
  then have n: "0 \<le> min (maxDistance (controls s)) (camera_distance s * 1.25)"
    using assms(2) by simp
  have "camera_distance (zoomOut s) =
          \<bar>min (maxDistance (controls s)) (camera_distance s * 1.25) / camera_distance s\<bar>
            * camera_distance s"
    using offset_zoomOut [OF assms(1)]
    by (simp add: camera_distance_def [of "zoomOut s"] length_vec_multiplyScalar)
       (simp add: camera_distance_def)
  also have "\<dots> = min (maxDistance (controls s)) (camera_distance s * 1.25)"
    using d n by (simp add: abs_of_nonneg)
  finally show ?thesis .
qed

lemma camera_distance_eq_0_iff:
  "camera_distance s = 0 \<longleftrightarrow> camera_position s = target (controls s)"
proof -
  have "sub_vec (camera_position s) (target (controls s)) = Vector3 0 0 0
          \<longleftrightarrow> camera_position s = target (controls s)"
    by (cases "camera_position s"; cases "target (controls s)") (simp add: sub_vec_def)
  then show ?thesis by (simp add: camera_distance_def length_vec_eq_0_iff)
qed

lemma sqrt_10000: "sqrt 10000 = 100"
  by (rule real_sqrt_unique) simp_all

lemma camera_distance_init: "camera_distance (init rnd) = 100"
  by (simp add: camera_distance_def init_def sub_vec_def length_vec_def sqrt_10000)

lemma controls_init:
  "controls (init rnd) = \<lparr>target = Vector3 0 0 0, minDistance = 10, maxDistance = 300\<rparr>"
  by (simp add: init_def)

section \<open>One zoom step\<close>

text \<open>
  C4.  When the camera is not at the target of the controls, so that there is a view
  direction, and \<open>maxDistance\<close> is not negative, \<open>zoomIn\<close> sets the camera distance to
  \<open>max minDistance (currentDistance * 0.8)\<close> and \<open>zoomOut\<close> sets it to
  \<open>min maxDistance (currentDistance * 1.25)\<close>.  Both move the camera along the line from the
  target through its old position: the new offset from the target is the old offset times
  the quotient of the new and the old distance, which is positive for \<open>zoomIn\<close> and not
  negative for \<open>zoomOut\<close>.  The controls are not changed.  The witness is the scenario of the
  claim: from the camera \<open>init\<close> places at distance 100, with \<open>minDistance = 10\<close>, three
  calls of \<open>zoomIn\<close> give the distances 80, 64 and 51.2.
\<close>

theorem zoom_step:
  assumes "camera_position s \<noteq> target (controls s)" and "0 \<le> maxDistance (controls s)"
  shows "camera_distance (zoomIn s) = max (minDistance (controls s)) (camera_distance s * 0.8)
       \<and> camera_distance (zoomOut s) = min (maxDistance (controls s)) (camera_distance s * 1.25)
       \<and> sub_vec (camera_position (zoomIn s)) (target (controls (zoomIn s))) =
           multiplyScalar (sub_vec (camera_position s) (target (controls s)))
             (camera_distance (zoomIn s) / camera_distance s)
       \<and> sub_vec (camera_position (zoomOut s)) (target (controls (zoomOut s))) =
           multiplyScalar (sub_vec (camera_position s) (target (controls s)))
             (camera_distance (zoomOut s) / camera_distance s)
       \<and> 0 < camera_distance (zoomIn s) / camera_distance s
       \<and> 0 \<le> camera_distance (zoomOut s) / camera_distance s
       \<and> controls (zoomIn s) = controls s \<and> controls (zoomOut s) = controls s"
proof -
  have nz: "camera_distance s \<noteq> 0"
    using assms(1) by (simp add: camera_distance_eq_0_iff)
  then have d: "0 < camera_distance s"
    using camera_distance_nonneg [of s] by linarith
  have i: "camera_distance (zoomIn s) = max (minDistance (controls s)) (camera_distance s * 0.8)"
    by (rule camera_distance_zoomIn [OF nz])
  have o: "camera_distance (zoomOut s) = min (maxDistance (controls s)) (camera_distance s * 1.25)"
    by (rule camera_distance_zoomOut [OF nz assms(2)])
  have ipos: "0 < camera_distance (zoomIn s)"
    using d by (simp add: i less_max_iff_disj)
  have opos: "0 \<le> camera_distance (zoomOut s)"
    by (rule camera_distance_nonneg)
  have ri: "sub_vec (camera_position (zoomIn s)) (target (controls (zoomIn s))) =
           multiplyScalar (sub_vec (camera_position s) (target (controls s)))
             (camera_distance (zoomIn s) / camera_distance s)"
    using offset_zoomIn [OF nz] by (simp add: i)
  have ro: "sub_vec (camera_position (zoomOut s)) (target (controls (zoomOut s))) =
           multiplyScalar (sub_vec (camera_position s) (target (controls s)))
             (camera_distance (zoomOut s) / camera_distance s)"
    using offset_zoomOut [OF nz] by (simp add: o)
  have qi: "0 < camera_distance (zoomIn s) / camera_distance s"
    by (rule divide_pos_pos [OF ipos d])
  have qo: "0 \<le> camera_distance (zoomOut s) / camera_distance s"
    by (rule divide_nonneg_pos [OF opos d])
  from i o ri ro qi qo show ?thesis
    by (simp only: controls_zoomIn controls_zoomOut simp_thms)
qed

theorem zoom_step_witness:
  "camera_position (init random_quarter) \<noteq> target (controls (init random_quarter))
   \<and> 0 \<le> maxDistance (controls (init random_quarter))
   \<and> camera_distance (init random_quarter) = 100
   \<and> minDistance (controls (init random_quarter)) = 10
   \<and> camera_distance (zoomIn (init random_quarter)) = 80
   \<and> camera_distance (zoomIn (zoomIn (init random_quarter))) = 64
   \<and> camera_distance (zoomIn (zoomIn (zoomIn (init random_quarter)))) = 51.2
   \<and> camera_distance (zoomOut (init random_quarter)) = 125"
proof -
  let ?s = "init random_quarter"
  have m: "0 \<le> maxDistance (controls ?s)" by (simp add: controls_init)
  have n0: "camera_position ?s \<noteq> target (controls ?s)" by (simp add: init_def)
  have d1: "camera_distance (zoomIn ?s) = 80"
    using zoom_step [OF n0 m] by (simp add: camera_distance_init controls_init)
  have n1: "camera_position (zoomIn ?s) \<noteq> target (controls (zoomIn ?s))"
    using d1 camera_distance_eq_0_iff [of "zoomIn ?s"] by simp
  have d2: "camera_distance (zoomIn (zoomIn ?s)) = 64"
    using zoom_step [OF n1] m by (simp add: d1 controls_init)
  have n2: "camera_position (zoomIn (zoomIn ?s)) \<noteq> target (controls (zoomIn (zoomIn ?s)))"
    using d2 camera_distance_eq_0_iff [of "zoomIn (zoomIn ?s)"] by simp
  have d3: "camera_distance (zoomIn (zoomIn (zoomIn ?s))) = 51.2"
    using zoom_step [OF n2] m by (simp add: d2 controls_init)
  have o1: "camera_distance (zoomOut ?s) = 125"
    using zoom_step [OF n0 m] by (simp add: camera_distance_init controls_init)
  show ?thesis
    using n0 m d1 d2 d3 o1 by (simp add: camera_distance_init controls_init)
qed

section \<open>The zoom buttons\<close>

lemma camera_hooked_animate:
  "(camera_position (hooked_animate orbit b s), controls (hooked_animate orbit b s))
     = orbit (camera_position s, controls s)"
proof -
  have "camera_position (updateInteraction b s) = camera_position s"
    and "controls (updateInteraction b s) = controls s"
    by (simp_all add: updateInteraction_def Let_def split: option.split)
  then show ?thesis
    using camera_animate [of orbit "updateInteraction b s"] by (simp add: hooked_animate_def)
qed

lemma camera_distance_cong:
  "camera_position a = camera_position b \<Longrightarrow> controls a = controls b
     \<Longrightarrow> camera_distance a = camera_distance b"
  by (simp add: camera_distance_def)

text \<open>
  C7, as stated: a zoom request would be queued and applied by the next frame.  The click
  handler applies it at once: after one click and before any frame the distance is already
  80, two clicks before a frame are both applied (64), and the frames that follow change
  nothing.
\<close>

theorem zoom_on_click_counterexample:
  "camera_distance (simulation (page_init random_quarter)) = 100
   \<and> camera_distance (simulation (run id [ClickZoomIn] (page_init random_quarter))) = 80
   \<and> camera_distance (simulation (run id [ClickZoomIn, Frame] (page_init random_quarter))) = 80
   \<and> camera_distance (simulation (run id [ClickZoomIn, ClickZoomIn] (page_init random_quarter))) = 64
   \<and> camera_distance (simulation (run id [ClickZoomIn, ClickZoomIn, Frame] (page_init random_quarter))) = 64
   \<and> camera_distance (simulation (run id [ClickZoomIn, ClickZoomIn, Frame, Frame] (page_init random_quarter))) = 64"
proof -
  let ?s = "init random_quarter"
  have frame: "camera_distance (hooked_animate id b s) = camera_distance s" for b s
    using camera_hooked_animate [of id b s] by (intro camera_distance_cong) simp_all
  have d0: "camera_distance ?s = 100" by (rule camera_distance_init)
  have d1: "camera_distance (zoomIn ?s) = 80"
    using camera_distance_zoomIn [of ?s] by (simp add: d0 controls_init)
  have d2: "camera_distance (zoomIn (zoomIn ?s)) = 64"
    using camera_distance_zoomIn [of "zoomIn ?s"] by (simp add: d1 controls_init)
  show ?thesis
    by (simp add: page_init_def frame d0 d1 d2)
qed

text \<open>
  C7, amended.  A click on a zoom button calls \<open>zoomIn\<close> or \<open>zoomOut\<close> once, inside the
  click handler, so each click is one zoom step applied immediately; the page keeps no
  pending zoom.  A frame, hooked (\<open>Frame\<close>) or not (\<open>RawFrame\<close>), changes the camera and
  the controls only through \<open>controls.update()\<close>: it applies no zoom step and clears none.
\<close>

theorem zoom_on_click:
  "simulation (handle orbit ClickZoomIn g) = zoomIn (simulation g)
   \<and> simulation (handle orbit ClickZoomOut g) = zoomOut (simulation g)
   \<and> page_isPaused (handle orbit ClickZoomIn g) = page_isPaused g
   \<and> page_isPaused (handle orbit ClickZoomOut g) = page_isPaused g
   \<and> simulation (handle orbit Frame g) = hooked_animate orbit (page_isPaused g) (simulation g)
   \<and> simulation (handle orbit RawFrame g) = animate orbit (simulation g)
   \<and> (camera_position (hooked_animate orbit b s), controls (hooked_animate orbit b s))
        = orbit (camera_position s, controls s)
   \<and> (camera_position (animate orbit s), controls (animate orbit s))
        = orbit (camera_position s, controls s)"
  using camera_hooked_animate [of orbit b s] camera_animate [of orbit s] by simp

end
